theory Spec2Isabelle
  imports Complex_Main "HOL-Library.Sublist"
begin

section \<open>JavaScript values\<close>

text \<open>
  The client parses every event with \<^verbatim>\<open>JSON.parse\<close> and reads it through unchecked
  casts, so a property of an event holds an arbitrary JavaScript value at run time.
  \<open>Undefined\<close> is the value of a missing property and of an object-literal field whose
  initialiser evaluated to \<^verbatim>\<open>undefined\<close>. A number is a finite double, kept as the
  rational it denotes (\<^verbatim>\<open>-0\<close> is \<open>0\<close>). An object is a finite map from property names
  to values; the order of its keys is not observable by any code modelled here.
\<close>

datatype jsval =
    Undefined
  | Null
  | Bool bool
  | Num rat
  | Str string
  | Arr "jsval list"
  | Obj "string \<Rightarrow> jsval option"

type_synonym jsobject = "string \<Rightarrow> jsval option"

text \<open>\<^verbatim>\<open>!!v\<close>: the falsy values are undefined, null, false, 0 and the empty string.\<close>

fun truthy :: "jsval \<Rightarrow> bool" where
  "truthy Undefined = False"
| "truthy Null = False"
| "truthy (Bool b) = b"
| "truthy (Num n) = (n \<noteq> 0)"
| "truthy (Str s) = (s \<noteq> [])"
| "truthy (Arr xs) = True"
| "truthy (Obj m) = True"

text \<open>\<^verbatim>\<open>a || b\<close> on values: the left operand when it is truthy, the right one otherwise.\<close>

definition js_or :: "jsval \<Rightarrow> jsval \<Rightarrow> jsval" where
  "js_or a b = (if truthy a then a else b)"

text \<open>\<^verbatim>\<open>o.k\<close> for an object \<open>o\<close> given as its map: a missing key reads as undefined.\<close>

definition get :: "jsobject \<Rightarrow> string \<Rightarrow> jsval" where
  "get m k = (case m k of None \<Rightarrow> Undefined | Some v \<Rightarrow> v)"

text \<open>
  \<^verbatim>\<open>v?.k\<close>: undefined on undefined and null, the property of an object, and undefined on
  a boolean, number, string or array for the names the source reads this way
  (\<^verbatim>\<open>sessionID\<close>, \<^verbatim>\<open>messageID\<close>, \<^verbatim>\<open>type\<close>: none is an index, \<^verbatim>\<open>length\<close> or a method).
\<close>

fun opt_chain :: "jsval \<Rightarrow> string \<Rightarrow> jsval" where
  "opt_chain (Obj m) k = get m k"
| "opt_chain v k = Undefined"

text \<open>\<^verbatim>\<open>v === s\<close> for a string \<open>s\<close>: true exactly for the string value with the same text.\<close>

definition strict_eq_str :: "jsval \<Rightarrow> string \<Rightarrow> bool" where
  "strict_eq_str v s = (v = Str s)"

text \<open>
  The test \<^verbatim>\<open>if (s)\<close> or \<^verbatim>\<open>!s\<close> on a value of type \<^verbatim>\<open>string | undefined\<close> or
  \<^verbatim>\<open>string | null\<close>: false on a missing and on an empty string.
\<close>

fun truthyStr :: "string option \<Rightarrow> bool" where
  "truthyStr None = False"
| "truthyStr (Some s) = (s \<noteq> [])"

section \<open>The event subscription (hook useTaskEvents)\<close>

text \<open>
  The model of the subscriber starts where the upstream event has been parsed: the event
  after \<^verbatim>\<open>JSON.parse\<close>, at its declared type
  \<^verbatim>\<open>{ type: string; properties: Record<string, unknown> }\<close>, and the \<^verbatim>\<open>TaskEvent\<close> the hook
  stores, whose \<^verbatim>\<open>properties\<close> is an open record as well.
\<close>

record openCodeEvent =
  oc_type :: string
  oc_properties :: jsobject

record taskEvent =
  ev_type :: string
  properties :: jsobject

text \<open>
  The object literal that builds the task event: \<^verbatim>\<open>sessionId\<close>, \<^verbatim>\<open>messageId\<close> and \<^verbatim>\<open>part\<close>
  are written first and \<^verbatim>\<open>...openCodeEvent.properties\<close> is spread after them, so a key
  of the upstream properties replaces a field written before it (\<open>++\<close> prefers its right
  operand).
\<close>

definition resolvedSessionId :: "jsobject \<Rightarrow> jsval" where
  "resolvedSessionId props =
     js_or (get props ''sessionID'') (opt_chain (get props ''part'') ''sessionID'')"

definition resolvedMessageId :: "jsobject \<Rightarrow> jsval" where
  "resolvedMessageId props =
     js_or (get props ''messageID'') (opt_chain (get props ''part'') ''messageID'')"

definition toTaskEvent :: "openCodeEvent \<Rightarrow> taskEvent" where
  "toTaskEvent openCodeEvent =
     \<lparr> ev_type = oc_type openCodeEvent,
       properties =
         [''sessionId'' \<mapsto> resolvedSessionId (oc_properties openCodeEvent),
          ''messageId'' \<mapsto> resolvedMessageId (oc_properties openCodeEvent),
          ''part'' \<mapsto> get (oc_properties openCodeEvent) ''part'']
         ++ oc_properties openCodeEvent \<rparr>"

text \<open>
  The session filter of the \<^verbatim>\<open>onmessage\<close> callback,
  \<^verbatim>\<open>!taskEvent.properties.sessionId || taskEvent.properties.sessionId === sessionId\<close>.
  The callback exists only inside a subscription, where \<^verbatim>\<open>sessionId\<close> is a string.
\<close>

definition shouldDeliver :: "taskEvent \<Rightarrow> string \<Rightarrow> bool" where
  "shouldDeliver taskEvent sessionId =
     (\<not> truthy (get (properties taskEvent) ''sessionId'')
      \<or> strict_eq_str (get (properties taskEvent) ''sessionId'') sessionId)"

text \<open>
  The effect of the hook, for its arguments \<^verbatim>\<open>taskId\<close>, \<^verbatim>\<open>sessionId\<close> (each a string or
  undefined) and \<^verbatim>\<open>enabled\<close>. It starts with
  \<^verbatim>\<open>if (!taskId || !sessionId || !enabled) return;\<close>: then no \<^verbatim>\<open>EventSource\<close> is created,
  no message arrives and the stored events stay as they are. Otherwise a task event that
  passes the filter is appended by \<^verbatim>\<open>setEvents((prev) => [...prev, taskEvent])\<close> and any
  other one is dropped. The state of the hook is the list of events stored so far.
\<close>

definition deliver ::
  "string option \<Rightarrow> string option \<Rightarrow> bool \<Rightarrow> taskEvent \<Rightarrow> taskEvent list \<Rightarrow> taskEvent list" where
  "deliver taskId sessionId enabled taskEvent prev =
     (if \<not> truthyStr taskId \<or> \<not> truthyStr sessionId \<or> \<not> enabled then prev
      else (case sessionId of
              None \<Rightarrow> prev
            | Some S \<Rightarrow> if shouldDeliver taskEvent S then prev @ [taskEvent] else prev))"

definition onOpenCodeEvent ::
  "string option \<Rightarrow> string option \<Rightarrow> bool \<Rightarrow> openCodeEvent \<Rightarrow> taskEvent list
     \<Rightarrow> taskEvent list" where
  "onOpenCodeEvent taskId sessionId enabled openCodeEvent prev =
     deliver taskId sessionId enabled (toTaskEvent openCodeEvent) prev"

subsection \<open>Status derivation\<close>

datatype DerivedStatus = Idle | Busy | Completed | Error | Unknown

text \<open>
  The \<^verbatim>\<open>for (const event of events)\<close> loop of the \<^verbatim>\<open>useMemo\<close> block, with its two local
  variables \<^verbatim>\<open>status\<close> and \<^verbatim>\<open>complete\<close> as the loop state (\<open>complete\<close> is a constant of
  the library, so the variable is written with a prime).
\<close>

definition statusType :: "taskEvent \<Rightarrow> jsval" where
  "statusType event = opt_chain (get (properties event) ''status'') ''type''"

fun deriveLoop :: "taskEvent list \<Rightarrow> DerivedStatus \<times> bool \<Rightarrow> DerivedStatus \<times> bool" where
  "deriveLoop [] (status, complete') = (status, complete')"
| "deriveLoop (event # events) (status, complete') =
     (if ev_type event = ''session.status'' then
        (if strict_eq_str (statusType event) ''busy'' then deriveLoop events (Busy, complete')
         else if strict_eq_str (statusType event) ''idle'' then deriveLoop events (Idle, complete')
         else deriveLoop events (status, complete'))
      else if ev_type event = ''session.idle'' then deriveLoop events (Completed, True)
      else if ev_type event = ''error'' then deriveLoop events (Error, True)
      else deriveLoop events (status, complete'))"

definition deriveStatus :: "taskEvent list \<Rightarrow> DerivedStatus \<times> bool" where
  "deriveStatus events = deriveLoop events (Unknown, False)"

text \<open>
  The fold rules as the specification words them, one event at a time: the rule for
  \<^verbatim>\<open>session.status\<close> with \<^verbatim>\<open>busy\<close>, the one with \<^verbatim>\<open>idle\<close>, the rule for \<^verbatim>\<open>session.idle\<close>,
  the one for \<^verbatim>\<open>error\<close>, and no change for anything else.
\<close>

definition specFoldRule :: "DerivedStatus \<times> bool \<Rightarrow> taskEvent \<Rightarrow> DerivedStatus \<times> bool" where
  "specFoldRule acc event =
     (if ev_type event = ''session.status'' \<and> statusType event = Str ''busy'' then (Busy, snd acc)
      else if ev_type event = ''session.status'' \<and> statusType event = Str ''idle'' then (Idle, snd acc)
      else if ev_type event = ''session.idle'' then (Completed, True)
      else if ev_type event = ''error'' then (Error, True)
      else acc)"

text \<open>An event that one of the four rules matches.\<close>

definition matchesRule :: "taskEvent \<Rightarrow> bool" where
  "matchesRule event =
     (ev_type event = ''session.status'' \<and> statusType event = Str ''busy''
      \<or> ev_type event = ''session.status'' \<and> statusType event = Str ''idle''
      \<or> ev_type event = ''session.idle''
      \<or> ev_type event = ''error'')"

section \<open>The worker (tasks-app)\<close>

subsection \<open>The execution context and the platform\<close>

text \<open>
  The sandbox of \<^verbatim>\<open>@cloudflare/sandbox\<close> and the \<^verbatim>\<open>JSON\<close> object are not code of the
  repository: they are parameters of the model, taken at their declared interfaces.
  \<open>'s\<close> is the state of the execution contexts, \<open>'b\<close> the type of an output stream.
  Every operation names the context by its key, as \<^verbatim>\<open>getSandbox(c.env.SANDBOX, taskId)\<close>
  does, and returns its outcome with the next state. Each operation is awaited, and an
  awaited promise either resolves to a value (\<open>Inr\<close>) or is rejected with an error
  (\<open>Inl\<close>, its message): \<^verbatim>\<open>exec\<close> resolves to an \<^verbatim>\<open>ExecResult\<close>, and a command that fails
  is a result whose \<^verbatim>\<open>success\<close> is false, not a rejection. The process handle of
  \<^verbatim>\<open>startProcess\<close> is only logged and is left out, as is every \<^verbatim>\<open>console.log\<close>.
\<close>

type_synonym 'a awaited = "string + 'a"

record execResult =
  stdout :: string
  stderr :: string
  exitCode :: int
  success :: bool

record ('s, 'b) platform =
  exec :: "string \<Rightarrow> string \<Rightarrow> string option \<Rightarrow> 's \<Rightarrow> execResult awaited \<times> 's"
  startProcess ::
    "string \<Rightarrow> string \<Rightarrow> string option \<Rightarrow> (string \<times> string) list \<Rightarrow> 's \<Rightarrow> unit awaited \<times> 's"
  execStream :: "string \<Rightarrow> string \<Rightarrow> 's \<Rightarrow> 'b awaited \<times> 's"
  JSON_stringify :: "jsval \<Rightarrow> string"
  JSON_parse :: "string \<Rightarrow> string + jsval"

text \<open>
  What a handler does to the outside, in order: each call to the execution context (an
  \<open>Exec\<close> with the outcome it had) and each \<^verbatim>\<open>setTimeout\<close> sleep.
\<close>

datatype effect =
    Exec string string "string option" "execResult awaited"
  | StartProcess string string "string option" "(string \<times> string) list"
  | ExecStream string string
  | Sleep nat

record 's world =
  ctx :: 's
  trace :: "effect list"

definition run_exec ::
  "('s, 'b) platform \<Rightarrow> string \<Rightarrow> string \<Rightarrow> string option \<Rightarrow> 's world
     \<Rightarrow> execResult awaited \<times> 's world" where
  "run_exec p key command cwd w =
     (let (outcome, s) = exec p key command cwd (ctx w)
      in (outcome, \<lparr> ctx = s, trace = trace w @ [Exec key command cwd outcome] \<rparr>))"

definition run_startProcess ::
  "('s, 'b) platform \<Rightarrow> string \<Rightarrow> string \<Rightarrow> string option \<Rightarrow> (string \<times> string) list
     \<Rightarrow> 's world \<Rightarrow> unit awaited \<times> 's world" where
  "run_startProcess p key command cwd env w =
     (let (outcome, s) = startProcess p key command cwd env (ctx w)
      in (outcome, \<lparr> ctx = s, trace = trace w @ [StartProcess key command cwd env] \<rparr>))"

definition run_execStream ::
  "('s, 'b) platform \<Rightarrow> string \<Rightarrow> string \<Rightarrow> 's world \<Rightarrow> 'b awaited \<times> 's world" where
  "run_execStream p key command w =
     (let (outcome, s) = execStream p key command (ctx w)
      in (outcome, \<lparr> ctx = s, trace = trace w @ [ExecStream key command] \<rparr>))"

definition sleep :: "nat \<Rightarrow> 's world \<Rightarrow> 's world" where
  "sleep ms w = w\<lparr> trace := trace w @ [Sleep ms] \<rparr>"

subsection \<open>Strings\<close>

text \<open>
  \<^verbatim>\<open>s.includes(sub)\<close> (\<open>str_includes\<close>), a text between single quotes, and
  \<^verbatim>\<open>s.replace(/'/g, "'\\''")\<close>, which closes the quote, writes an escaped quote and opens
  the quote again.
\<close>

fun str_includes :: "string \<Rightarrow> string \<Rightarrow> bool" where
  "str_includes [] sub = (sub = [])"
| "str_includes (c # cs) sub = (prefix sub (c # cs) \<or> str_includes cs sub)"

definition quoted :: "string \<Rightarrow> string" where
  "quoted s = CHR 0x27 # s @ [CHR 0x27]"

definition escapeQuotes :: "string \<Rightarrow> string" where
  "escapeQuotes s =
     concat (map (\<lambda>c. if c = CHR 0x27 then [CHR 0x27, CHR 0x5C, CHR 0x27, CHR 0x27] else [c]) s)"

fun join :: "string \<Rightarrow> string list \<Rightarrow> string" where
  "join sep [] = []"
| "join sep [x] = x"
| "join sep (x # y # ys) = x @ sep @ join sep (y # ys)"

subsection \<open>curlJson\<close>

record curlResult =
  data :: jsval
  raw :: string
  error :: "string option"

definition curlCommand :: "('s, 'b) platform \<Rightarrow> string \<Rightarrow> string \<Rightarrow> jsval option \<Rightarrow> string" where
  "curlCommand p method url body =
     join '' ''
       ([''curl'', ''-s'', ''-X'', method, ''-H'', quoted ''Content-Type: application/json'']
        @ (case body of
             None \<Rightarrow> []
           | Some b \<Rightarrow>
               if truthy b then [''-d'', quoted (escapeQuotes (JSON_stringify p b))] else [])
        @ [quoted url])"

text \<open>
  \<^verbatim>\<open>curlJson\<close> has no \<^verbatim>\<open>try\<close> around \<^verbatim>\<open>await sandbox.exec(command)\<close>: a rejection of the call
  is a rejection of \<^verbatim>\<open>curlJson\<close>. Its \<^verbatim>\<open>context\<close> argument is only logged and is left out.
\<close>

definition curlJson ::
  "('s, 'b) platform \<Rightarrow> string \<Rightarrow> string \<Rightarrow> string \<Rightarrow> jsval option \<Rightarrow> 's world
     \<Rightarrow> curlResult awaited \<times> 's world" where
  "curlJson p key method url body w =
     (let (outcome, w') = run_exec p key (curlCommand p method url body) None w
      in case outcome of
           Inl rejection \<Rightarrow> (Inl rejection, w')
         | Inr result \<Rightarrow>
             if \<not> success result then
               (Inr \<lparr> data = Null, raw = stderr result,
                      error = Some (''curl failed: '' @ stderr result) \<rparr>, w')
             else
               (case JSON_parse p (stdout result) of
                  Inr json \<Rightarrow> (Inr \<lparr> data = json, raw = stdout result, error = None \<rparr>, w')
                | Inl message \<Rightarrow>
                    (Inr \<lparr> data = Null, raw = stdout result,
                           error = Some (''Failed to parse JSON: '' @ message) \<rparr>, w')))"

subsection \<open>waitForOpenCode\<close>

text \<open>
  The \<^verbatim>\<open>for (let i = 0; i < maxAttempts; i++)\<close> loop, with \<open>i\<close> as an argument; \<open>maxAttempts\<close>
  is a count and \<open>intervalMs\<close> a number of milliseconds, both natural numbers. An attempt
  that is not ready is followed by the \<^verbatim>\<open>setTimeout\<close> sleep, the last one too. The
  function has no \<^verbatim>\<open>try\<close>: a probe call that is rejected rejects the poller.
\<close>

definition probeCommand :: string where
  "probeCommand =
     ''curl -sf http://localhost:4096/session || echo '' @ quoted ''not ready''"

definition probeReady :: "execResult \<Rightarrow> bool" where
  "probeReady result = (success result \<and> \<not> str_includes (stdout result) ''not ready'')"

function waitLoop ::
  "('s, 'b) platform \<Rightarrow> string \<Rightarrow> nat \<Rightarrow> nat \<Rightarrow> nat \<Rightarrow> 's world \<Rightarrow> bool awaited \<times> 's world" where
  "waitLoop p key i maxAttempts intervalMs w =
     (if i < maxAttempts then
        (let rw = run_exec p key probeCommand None w
         in case fst rw of
              Inl rejection \<Rightarrow> (Inl rejection, snd rw)
            | Inr result \<Rightarrow>
                if probeReady result then (Inr True, snd rw)
                else waitLoop p key (i + 1) maxAttempts intervalMs (sleep intervalMs (snd rw)))
      else (Inr False, w))"
  by pat_completeness auto
termination
  by (relation "measure (\<lambda>(p, key, i, maxAttempts, intervalMs, w). maxAttempts - i)") auto

definition waitForOpenCode ::
  "('s, 'b) platform \<Rightarrow> string \<Rightarrow> nat \<Rightarrow> nat \<Rightarrow> 's world \<Rightarrow> bool awaited \<times> 's world" where
  "waitForOpenCode p key maxAttempts intervalMs w = waitLoop p key 0 maxAttempts intervalMs w"

subsection \<open>Responses\<close>

datatype TaskStatus =
  Initializing | Cloning | Starting | Running | TaskCompleted | TaskError | Aborted

record task =
  task_id :: string
  task_status :: TaskStatus
  repoUrl :: string
  branch :: string
  prompt :: string
  sessionId :: string
  createdAt :: string
  startedAt :: string

text \<open>
  \<^verbatim>\<open>c.json({ data: ... }, status)\<close>, \<^verbatim>\<open>c.json({ error: ... }, status)\<close> (the status is 200
  when the call gives none) and \<^verbatim>\<open>new Response(stream, { headers })\<close>. \<open>Uncaught\<close> is an
  error that leaves a handler which has no \<^verbatim>\<open>try\<close>: the handler builds no response and
  the framework answers the request with status 500.
\<close>

datatype payload =
    TaskData task
  | DiffData string string
  | AbortData bool string

datatype 'b response =
    JsonData payload nat
  | JsonError string nat
  | StreamResponse 'b "(string \<times> string) list"
  | Uncaught string

fun httpStatus :: "'b response \<Rightarrow> nat" where
  "httpStatus (JsonData body status) = status"
| "httpStatus (JsonError message status) = status"
| "httpStatus (StreamResponse body headers) = 200"
| "httpStatus (Uncaught message) = 500"

subsection \<open>The response schemas\<close>

text \<open>
  \<^verbatim>\<open>z.object({ id: z.string() }).safeParse(v)\<close> succeeds on an object (not null, not an
  array) whose \<^verbatim>\<open>id\<close> is a string, and gives that string.
  \<^verbatim>\<open>z.object({ error: z.string().optional(), message: z.string().optional() })\<close> succeeds
  on an object each of whose two fields is missing or a string, and gives the two fields.
\<close>

fun OpenCodeSessionResponseSchema :: "jsval \<Rightarrow> string option" where
  "OpenCodeSessionResponseSchema (Obj m) =
     (case get m ''id'' of Str s \<Rightarrow> Some s | _ \<Rightarrow> None)"
| "OpenCodeSessionResponseSchema v = None"

fun optionalString :: "jsval \<Rightarrow> string option option" where
  "optionalString Undefined = Some None"
| "optionalString (Str s) = Some (Some s)"
| "optionalString v = None"

fun OpenCodeErrorResponseSchema :: "jsval \<Rightarrow> (string option \<times> string option) option" where
  "OpenCodeErrorResponseSchema (Obj m) =
     (case (optionalString (get m ''error''), optionalString (get m ''message'')) of
        (Some e, Some msg) \<Rightarrow> Some (e, msg)
      | _ \<Rightarrow> None)"
| "OpenCodeErrorResponseSchema v = None"

text \<open>\<^verbatim>\<open>a || b\<close> on two values of type \<^verbatim>\<open>string | undefined\<close>.\<close>

definition orStr :: "string option \<Rightarrow> string option \<Rightarrow> string option" where
  "orStr a b = (if truthyStr a then a else b)"

text \<open>
  The validation of the session-creation response in the create handler, from
  \<^verbatim>\<open>OpenCodeSessionResponseSchema.safeParse(sessionResult.data)\<close> to
  \<^verbatim>\<open>const sessionId = parsedSession.data.id\<close>: \<open>Inr\<close> the session id, \<open>Inl\<close> the message of
  the \<^verbatim>\<open>Error\<close> thrown.
\<close>

definition validateSessionResponse :: "('s, 'b) platform \<Rightarrow> jsval \<Rightarrow> string + string" where
  "validateSessionResponse p sessionData =
     (case OpenCodeSessionResponseSchema sessionData of
        Some sid \<Rightarrow> Inr sid
      | None \<Rightarrow>
          (case OpenCodeErrorResponseSchema sessionData of
             Some (e, msg) \<Rightarrow>
               (case orStr e msg of
                  Some text \<Rightarrow>
                    if text \<noteq> [] then Inl (''OpenCode API error: '' @ text)
                    else Inl (''Unexpected session response format: ''
                              @ JSON_stringify p sessionData)
                | None \<Rightarrow>
                    Inl (''Unexpected session response format: ''
                         @ JSON_stringify p sessionData))
           | None \<Rightarrow>
               Inl (''Unexpected session response format: '' @ JSON_stringify p sessionData)))"

subsection \<open>The handlers\<close>

record createTaskRequest =
  req_repoUrl :: string
  req_branch :: string
  req_prompt :: string

definition cloneCommand :: "createTaskRequest \<Rightarrow> string" where
  "cloneCommand req =
     ''git clone --branch '' @ req_branch req @ '' --single-branch '' @ req_repoUrl req
     @ '' /workspace/repo''"

definition serveCommand :: string where
  "serveCommand = ''opencode serve --port 4096 --hostname 0.0.0.0''"

definition serveEnv :: "(string \<times> string) list" where
  "serveEnv =
     [(''PATH'', ''/usr/local/bin:/usr/bin:/bin''),
      (''HOME'', ''/root''),
      (''NODE_EXTRA_CA_CERTS'', ''/etc/ssl/certs/Cloudflare_CA.pem''),
      (''NODE_TLS_REJECT_UNAUTHORIZED'', ''0'')]"

definition sessionBody :: "createTaskRequest \<Rightarrow> jsval" where
  "sessionBody req = Obj [''title'' \<mapsto> Str (''Task: '' @ take 50 (req_prompt req) @ ''...'')]"

definition messageCommand :: "('s, 'b) platform \<Rightarrow> createTaskRequest \<Rightarrow> string \<Rightarrow> string" where
  "messageCommand p req sid =
     ''curl -s -X POST -H '' @ quoted ''Content-Type: application/json'' @ '' -d ''
     @ quoted (escapeQuotes (JSON_stringify p
         (Obj [''parts'' \<mapsto> Arr [Obj [''type'' \<mapsto> Str ''text'', ''text'' \<mapsto> Str (req_prompt req)]]])))
     @ '' '' @ quoted (''http://localhost:4096/session/'' @ sid @ ''/message'')"

text \<open>
  The create handler, after the request validator. The task id (built from the clock and
  a random number) and the two timestamps are inputs. The whole body is in a \<^verbatim>\<open>try\<close> block:
  a \<^verbatim>\<open>throw\<close> of the handler and a rejection of an awaited call both reach the \<^verbatim>\<open>catch\<close>
  block, which answers 500 with the message of the error.
\<close>

definition createTaskHandler ::
  "('s, 'b) platform \<Rightarrow> string \<Rightarrow> string \<Rightarrow> string \<Rightarrow> createTaskRequest \<Rightarrow> 's world
     \<Rightarrow> 'b response \<times> 's world" where
  "createTaskHandler p taskId created started req w =
     (let (cloneOutcome, w1) = run_exec p taskId (cloneCommand req) None w
      in case cloneOutcome of
           Inl rejection \<Rightarrow> (JsonError rejection 500, w1)
         | Inr cloneResult \<Rightarrow>
       if \<not> success cloneResult then
         (JsonError (''Failed to clone repository: '' @ stderr cloneResult) 500, w1)
       else
         (let (opencodeProcess, w2) =
                run_startProcess p taskId serveCommand (Some ''/workspace/repo'') serveEnv w1
          in case opencodeProcess of
               Inl rejection \<Rightarrow> (JsonError rejection 500, w2)
             | Inr process \<Rightarrow>
           (let (readiness, w3) = waitForOpenCode p taskId 30 1000 w2
            in case readiness of
                 Inl rejection \<Rightarrow> (JsonError rejection 500, w3)
               | Inr isReady \<Rightarrow>
             if \<not> isReady then
               (JsonError ''OpenCode server failed to start within timeout'' 500, w3)
             else
               (let (sessionOutcome, w4) =
                      curlJson p taskId ''POST'' ''http://localhost:4096/session''
                        (Some (sessionBody req)) w3
                in case sessionOutcome of
                     Inl rejection \<Rightarrow> (JsonError rejection 500, w4)
                   | Inr sessionResult \<Rightarrow>
                 if truthyStr (error sessionResult) then
                   (JsonError
                      (''Failed to create session: ''
                       @ (case error sessionResult of Some e \<Rightarrow> e | None \<Rightarrow> []))
                      500, w4)
                 else
                   (case validateSessionResponse p (data sessionResult) of
                      Inl message \<Rightarrow> (JsonError message 500, w4)
                    | Inr sid \<Rightarrow>
                        (let (sent, w5) = run_startProcess p taskId (messageCommand p req sid)
                                            (Some ''/workspace/repo'') [] w4
                         in case sent of
                              Inl rejection \<Rightarrow> (JsonError rejection 500, w5)
                            | Inr process \<Rightarrow>
                                (JsonData
                                   (TaskData
                                      \<lparr> task_id = taskId, task_status = Running,
                                        repoUrl = req_repoUrl req, branch = req_branch req,
                                        prompt = req_prompt req, sessionId = sid,
                                        createdAt = created, startedAt = started \<rparr>)
                                   201, w5)))))))"

text \<open>
  The three other handlers have no \<^verbatim>\<open>try\<close> block: a rejected call leaves the handler.
\<close>

definition eventsCommand :: string where
  "eventsCommand =
     ''curl -N -H '' @ quoted ''Accept: text/event-stream'' @ '' ''
     @ quoted ''http://localhost:4096/event''"

definition eventsHandler ::
  "('s, 'b) platform \<Rightarrow> string \<Rightarrow> 's world \<Rightarrow> 'b response \<times> 's world" where
  "eventsHandler p taskId w =
     (let (outcome, w') = run_execStream p taskId eventsCommand w
      in case outcome of
           Inl rejection \<Rightarrow> (Uncaught rejection, w')
         | Inr stream \<Rightarrow>
             (StreamResponse stream
                [(''Content-Type'', ''text/event-stream''),
                 (''Cache-Control'', ''no-cache''),
                 (''Connection'', ''keep-alive'')], w'))"

definition diffHandler ::
  "('s, 'b) platform \<Rightarrow> string \<Rightarrow> 's world \<Rightarrow> 'b response \<times> 's world" where
  "diffHandler p taskId w =
     (let (outcome, w') = run_exec p taskId ''git diff HEAD'' (Some ''/workspace/repo'') w
      in case outcome of
           Inl rejection \<Rightarrow> (Uncaught rejection, w')
         | Inr result \<Rightarrow>
             (JsonData
                (DiffData (if stdout result \<noteq> [] then stdout result else []) taskId) 200, w'))"

text \<open>
  The abort handler; \<open>query\<close> is \<^verbatim>\<open>c.req.query("sessionId")\<close>, a string or undefined.
\<close>

definition abortHandler ::
  "('s, 'b) platform \<Rightarrow> string \<Rightarrow> string option \<Rightarrow> 's world \<Rightarrow> 'b response \<times> 's world" where
  "abortHandler p taskId query w =
     (case query of
        None \<Rightarrow> (JsonError ''sessionId query parameter required'' 400, w)
      | Some sid \<Rightarrow>
          if sid = [] then (JsonError ''sessionId query parameter required'' 400, w)
          else
            (let (outcome, w') = curlJson p taskId ''POST''
                                   (''http://localhost:4096/session/'' @ sid @ ''/abort'') None w
             in case outcome of
                  Inl rejection \<Rightarrow> (Uncaught rejection, w')
                | Inr r \<Rightarrow> (JsonData (AbortData True taskId) 200, w')))"

section \<open>Concrete inputs\<close>

text \<open>Upstream events and task events on which the definitions are run.\<close>

definition emptySessionEvent :: openCodeEvent where
  "emptySessionEvent =
     \<lparr> oc_type = ''message.part.updated'',
       oc_properties = [''part'' \<mapsto> Obj [''sessionID'' \<mapsto> Str []]] \<rparr>"

definition foreignEvent :: openCodeEvent where
  "foreignEvent =
     \<lparr> oc_type = ''message.part.updated'',
       oc_properties = [''sessionID'' \<mapsto> Str ''ses_2'', ''delta'' \<mapsto> Str ''hi''] \<rparr>"

definition overriddenEvent :: openCodeEvent where
  "overriddenEvent =
     \<lparr> oc_type = ''message.part.updated'',
       oc_properties =
         [''sessionID'' \<mapsto> Str ''ses_1'', ''sessionId'' \<mapsto> Str ''ses_2'',
          ''messageID'' \<mapsto> Str ''msg_1'', ''messageId'' \<mapsto> Str ''msg_2''] \<rparr>"

definition busyEvent :: taskEvent where
  "busyEvent =
     \<lparr> ev_type = ''session.status'',
       properties = [''status'' \<mapsto> Obj [''type'' \<mapsto> Str ''busy'']] \<rparr>"

definition idleStatusEvent :: taskEvent where
  "idleStatusEvent =
     \<lparr> ev_type = ''session.status'',
       properties = [''status'' \<mapsto> Obj [''type'' \<mapsto> Str ''idle'']] \<rparr>"

definition sessionIdleEvent :: taskEvent where
  "sessionIdleEvent = \<lparr> ev_type = ''session.idle'', properties = Map.empty \<rparr>"

definition errorEvent :: taskEvent where
  "errorEvent = \<lparr> ev_type = ''error'', properties = Map.empty \<rparr>"

definition deltaEvent :: taskEvent where
  "deltaEvent =
     \<lparr> ev_type = ''message.part.updated'', properties = [''delta'' \<mapsto> Str ''hi''] \<rparr>"

definition absentSessionEvent :: openCodeEvent where
  "absentSessionEvent =
     \<lparr> oc_type = ''server.connected'', oc_properties = Map.empty \<rparr>"

definition partSessionEvent :: openCodeEvent where
  "partSessionEvent =
     \<lparr> oc_type = ''message.part.updated'',
       oc_properties =
         [''part'' \<mapsto> Obj [''sessionID'' \<mapsto> Str ''ses_1'', ''messageID'' \<mapsto> Str ''msg_1'']] \<rparr>"

text \<open>
  A scripted execution context: its state counts the \<^verbatim>\<open>exec\<close> calls made so far, every
  call resolves, and the \<open>n\<close>-th \<^verbatim>\<open>exec\<close> resolves to \<open>script n\<close>. \<^verbatim>\<open>JSON.parse\<close> gives \<open>parsed\<close>
  for every non-empty text, \<^verbatim>\<open>JSON.stringify\<close> a fixed text. In \<open>unavailable\<close> every call to
  the execution context is rejected.
\<close>

definition scripted :: "(nat \<Rightarrow> execResult) \<Rightarrow> jsval \<Rightarrow> (nat, string) platform" where
  "scripted script parsed =
     \<lparr> exec = (\<lambda>key command cwd n. (Inr (script n), n + 1)),
       startProcess = (\<lambda>key command cwd env n. (Inr (), n)),
       execStream = (\<lambda>key command n. (Inr ''data: {}'', n)),
       JSON_stringify = (\<lambda>v. ''<json>''),
       JSON_parse =
         (\<lambda>s. if s = [] then Inl ''Unexpected end of JSON input'' else Inr parsed) \<rparr>"

definition unavailable :: "(nat, string) platform" where
  "unavailable =
     \<lparr> exec = (\<lambda>key command cwd n. (Inl ''sandbox unavailable'', n)),
       startProcess = (\<lambda>key command cwd env n. (Inl ''sandbox unavailable'', n)),
       execStream = (\<lambda>key command n. (Inl ''sandbox unavailable'', n)),
       JSON_stringify = (\<lambda>v. ''<json>''),
       JSON_parse = (\<lambda>s. Inl ''Unexpected end of JSON input'') \<rparr>"

definition ok :: "string \<Rightarrow> execResult" where
  "ok out = \<lparr> stdout = out, stderr = [], exitCode = 0, success = True \<rparr>"

definition failed :: "int \<Rightarrow> string \<Rightarrow> execResult" where
  "failed code err = \<lparr> stdout = [], stderr = err, exitCode = code, success = False \<rparr>"

definition world0 :: "nat world" where
  "world0 = \<lparr> ctx = 0, trace = [] \<rparr>"

definition request0 :: createTaskRequest where
  "request0 =
     \<lparr> req_repoUrl = ''https://example.com/r.git'', req_branch = ''main'',
       req_prompt = ''add readme'' \<rparr>"

text \<open>The clone fails; the agent answers no probe; the agent answers the second probe.\<close>

definition cloneFails :: "(nat, string) platform" where
  "cloneFails = scripted (\<lambda>n. failed 128 ''fatal: repository not found'') Null"

definition neverReady :: "(nat, string) platform" where
  "neverReady = scripted (\<lambda>n. ok (''not ready'' @ [CHR 0x0A])) Null"

definition readySecond :: "(nat, string) platform" where
  "readySecond =
     scripted (\<lambda>n. if n = 0 then ok (''not ready'' @ [CHR 0x0A]) else ok ''[]'') Null"

text \<open>
  The clone and the first probe succeed, and the session-creation call (the third \<^verbatim>\<open>exec\<close>)
  has the result \<open>r\<close>, whose output parses to \<open>parsed\<close> when it is not empty. In
  \<open>sessionCreated\<close> the agent answers with the session \<^verbatim>\<open>ses_1\<close>; in \<open>emptyErrorAnswer\<close> with
  an error envelope whose \<^verbatim>\<open>error\<close> is the empty string.
\<close>

definition sessionAnswers :: "execResult \<Rightarrow> jsval \<Rightarrow> (nat, string) platform" where
  "sessionAnswers r parsed = scripted (\<lambda>n. if n = 2 then r else ok ''[]'') parsed"

definition sessionCreated :: "(nat, string) platform" where
  "sessionCreated = sessionAnswers (ok ''{}'') (Obj [''id'' \<mapsto> Str ''ses_1''])"

definition emptyErrorEnvelope :: jsval where
  "emptyErrorEnvelope = Obj [''error'' \<mapsto> Str []]"

definition agentDown :: "(nat, string) platform" where
  "agentDown = scripted (\<lambda>n. failed 7 ''curl: (7) Failed to connect'') Null"

definition noRepository :: "(nat, string) platform" where
  "noRepository = scripted (\<lambda>n. failed 128 ''fatal: not a git repository'') Null"

definition emptyErrorAnswer :: "(nat, string) platform" where
  "emptyErrorAnswer = sessionAnswers (ok ''{}'') emptyErrorEnvelope"

definition repositoryChanged :: "(nat, string) platform" where
  "repositoryChanged = scripted (\<lambda>n. ok ''diff --git a/README.md b/README.md'') Null"

subsection \<open>Reading a trace\<close>

text \<open>
  The effects of a run of failed probes, each followed by its sleep, and the test for a
  probe call.
\<close>

definition attempts :: "string \<Rightarrow> nat \<Rightarrow> execResult list \<Rightarrow> effect list" where
  "attempts key intervalMs results =
     concat (map (\<lambda>r. [Exec key probeCommand None (Inr r), Sleep intervalMs]) results)"

fun isProbe :: "effect \<Rightarrow> bool" where
  "isProbe (Exec key command cwd r) = (command = probeCommand)"
| "isProbe e = False"

section \<open>Properties of the event subscription\<close>

lemma truthy_iff: "truthy v = (v \<notin> {Undefined, Null, Bool False, Num 0, Str []})"
  by (cases v) auto

text \<open>
  Claim C1, as amended. The hook opens a subscription only when \<^verbatim>\<open>taskId\<close> and the target
  session \<open>S\<close> are non-empty strings and it is enabled. For every task event \<open>e\<close> and every
  such subscription, \<open>e\<close> is delivered to the subscriber (appended to the stored events) if
  and only if its \<^verbatim>\<open>sessionId\<close> property is absent or otherwise falsy (undefined, null,
  false, 0 or the empty string) or is the string \<open>S\<close>; every other event is dropped and
  the stored events stay as they were. Without a subscription (a missing or empty
  \<^verbatim>\<open>taskId\<close> or \<^verbatim>\<open>sessionId\<close>, or not enabled) nothing is delivered.
\<close>

theorem session_filter:
  "(truthyStr taskId \<and> S \<noteq> [] \<and> enabled \<longrightarrow>
      shouldDeliver e S =
        (get (properties e) ''sessionId'' \<in> {Undefined, Null, Bool False, Num 0, Str []}
         \<or> get (properties e) ''sessionId'' = Str S)
      \<and> deliver taskId (Some S) enabled e prev =
          (if get (properties e) ''sessionId'' \<in> {Undefined, Null, Bool False, Num 0, Str []}
              \<or> get (properties e) ''sessionId'' = Str S
           then prev @ [e] else prev))
   \<and> (\<not> truthyStr taskId \<or> \<not> truthyStr target \<or> \<not> enabled \<longrightarrow>
        deliver taskId target enabled e prev = prev)"
  by (simp add: deliver_def shouldDeliver_def strict_eq_str_def truthy_iff)

text \<open>
  The hook run on an upstream event of session \<^verbatim>\<open>ses_2\<close>: dropped for the subscriber of
  \<^verbatim>\<open>ses_1\<close>, delivered to the subscriber of \<^verbatim>\<open>ses_2\<close>, and stored by no hook that is disabled
  or has no session.
\<close>

theorem session_filter_witness:
  "truthyStr (Some ''task-1'') \<and> ''ses_1'' \<noteq> []
   \<and> get (properties (toTaskEvent foreignEvent)) ''sessionId'' = Str ''ses_2''
   \<and> shouldDeliver (toTaskEvent foreignEvent) ''ses_1'' = False
   \<and> onOpenCodeEvent (Some ''task-1'') (Some ''ses_1'') True foreignEvent [] = []
   \<and> onOpenCodeEvent (Some ''task-1'') (Some ''ses_2'') True foreignEvent []
       = [toTaskEvent foreignEvent]
   \<and> onOpenCodeEvent (Some ''task-1'') (Some ''ses_2'') False foreignEvent [] = []
   \<and> onOpenCodeEvent (Some ''task-1'') None True foreignEvent [] = []
   \<and> onOpenCodeEvent None (Some ''ses_2'') True foreignEvent [] = []"
  using session_filter
          [of "Some ''task-1''" "''ses_1''" True "toTaskEvent foreignEvent" "[]" "Some ''ses_1''"]
    session_filter
          [of "Some ''task-1''" "''ses_2''" True "toTaskEvent foreignEvent" "[]" "Some ''ses_2''"]
    session_filter
          [of "Some ''task-1''" "''ses_2''" False "toTaskEvent foreignEvent" "[]" "Some ''ses_2''"]
    session_filter [of "Some ''task-1''" "''ses_2''" True "toTaskEvent foreignEvent" "[]" None]
    session_filter [of None "''ses_2''" True "toTaskEvent foreignEvent" "[]" "Some ''ses_2''"]
  by (simp add: onOpenCodeEvent_def foreignEvent_def toTaskEvent_def get_def
      resolvedSessionId_def js_or_def map_add_def)

text \<open>
  Claim C1 as stated fails. An upstream event whose part carries the empty string as
  \<^verbatim>\<open>sessionID\<close> resolves to a \<^verbatim>\<open>sessionId\<close> that is present and is not the session
  \<^verbatim>\<open>ses_1\<close> of the subscriber, and it is delivered. And for the empty target session an
  event with no \<^verbatim>\<open>sessionId\<close> at all is not delivered: the hook subscribes to nothing.
\<close>

theorem session_filter_counterexample:
  "\<not> (shouldDeliver (toTaskEvent emptySessionEvent) ''ses_1'' =
        (get (properties (toTaskEvent emptySessionEvent)) ''sessionId'' = Undefined
         \<or> get (properties (toTaskEvent emptySessionEvent)) ''sessionId'' = Str ''ses_1''))
   \<and> get (properties (toTaskEvent emptySessionEvent)) ''sessionId'' = Str []
   \<and> onOpenCodeEvent (Some ''task-1'') (Some ''ses_1'') True emptySessionEvent []
       = [toTaskEvent emptySessionEvent]
   \<and> get (properties (toTaskEvent absentSessionEvent)) ''sessionId'' = Undefined
   \<and> onOpenCodeEvent (Some ''task-1'') (Some []) True absentSessionEvent [] = []"
  by (simp add: onOpenCodeEvent_def deliver_def emptySessionEvent_def absentSessionEvent_def
      toTaskEvent_def shouldDeliver_def strict_eq_str_def get_def resolvedSessionId_def
      js_or_def map_add_def)

text \<open>
  Claim C10. The task event is built from the resolved fields first and the spread of the
  upstream properties after them. Without a lowercase \<^verbatim>\<open>sessionId\<close> key upstream, the
  \<^verbatim>\<open>sessionId\<close> of the task event is the resolved one: the upstream \<^verbatim>\<open>sessionID\<close> when that is
  truthy, else the \<^verbatim>\<open>sessionID\<close> of the upstream \<^verbatim>\<open>part\<close>. With a lowercase \<^verbatim>\<open>sessionId\<close> key
  upstream, its value replaces the resolved one, and it is the value the session filter of a
  subscription tests, whatever \<^verbatim>\<open>sessionID\<close> and \<^verbatim>\<open>part.sessionID\<close> resolve to. The same holds
  for \<^verbatim>\<open>messageId\<close> with \<^verbatim>\<open>messageID\<close> and \<^verbatim>\<open>part.messageID\<close>.
\<close>

theorem spread_overrides_resolved:
  "(oc_properties ev ''sessionId'' = None \<longrightarrow>
      get (properties (toTaskEvent ev)) ''sessionId''
        = (if truthy (get (oc_properties ev) ''sessionID'')
           then get (oc_properties ev) ''sessionID''
           else opt_chain (get (oc_properties ev) ''part'') ''sessionID''))
   \<and> (oc_properties ev ''sessionId'' = Some v \<longrightarrow>
      get (properties (toTaskEvent ev)) ''sessionId'' = v
      \<and> shouldDeliver (toTaskEvent ev) S = (\<not> truthy v \<or> v = Str S)
      \<and> (truthyStr taskId \<and> S \<noteq> [] \<and> enabled \<longrightarrow>
           onOpenCodeEvent taskId (Some S) enabled ev prev
             = (if \<not> truthy v \<or> v = Str S then prev @ [toTaskEvent ev] else prev)))
   \<and> (oc_properties ev ''messageId'' = None \<longrightarrow>
      get (properties (toTaskEvent ev)) ''messageId''
        = (if truthy (get (oc_properties ev) ''messageID'')
           then get (oc_properties ev) ''messageID''
           else opt_chain (get (oc_properties ev) ''part'') ''messageID''))
   \<and> (oc_properties ev ''messageId'' = Some u \<longrightarrow>
      get (properties (toTaskEvent ev)) ''messageId'' = u)"
  by (simp add: toTaskEvent_def onOpenCodeEvent_def deliver_def shouldDeliver_def get_def
      map_add_def strict_eq_str_def resolvedSessionId_def resolvedMessageId_def js_or_def)

text \<open>
  An event that resolves to \<^verbatim>\<open>ses_1\<close> and carries the lowercase key with \<^verbatim>\<open>ses_2\<close>: the
  subscriber of \<^verbatim>\<open>ses_1\<close> does not receive it, the subscriber of \<^verbatim>\<open>ses_2\<close> does. An event
  with no lowercase key whose part names \<^verbatim>\<open>ses_1\<close> and \<^verbatim>\<open>msg_1\<close>: the task event carries both
  as its resolved \<^verbatim>\<open>sessionId\<close> and \<^verbatim>\<open>messageId\<close>.
\<close>

theorem spread_overrides_resolved_witness:
  "oc_properties overriddenEvent ''sessionId'' = Some (Str ''ses_2'')
   \<and> oc_properties overriddenEvent ''messageId'' = Some (Str ''msg_2'')
   \<and> resolvedSessionId (oc_properties overriddenEvent) = Str ''ses_1''
   \<and> resolvedMessageId (oc_properties overriddenEvent) = Str ''msg_1''
   \<and> get (properties (toTaskEvent overriddenEvent)) ''sessionId'' = Str ''ses_2''
   \<and> get (properties (toTaskEvent overriddenEvent)) ''messageId'' = Str ''msg_2''
   \<and> onOpenCodeEvent (Some ''task-1'') (Some ''ses_1'') True overriddenEvent [] = []
   \<and> onOpenCodeEvent (Some ''task-1'') (Some ''ses_2'') True overriddenEvent []
       = [toTaskEvent overriddenEvent]
   \<and> oc_properties partSessionEvent ''sessionId'' = None
   \<and> oc_properties partSessionEvent ''messageId'' = None
   \<and> get (properties (toTaskEvent partSessionEvent)) ''sessionId'' = Str ''ses_1''
   \<and> get (properties (toTaskEvent partSessionEvent)) ''messageId'' = Str ''msg_1''
   \<and> oc_properties foreignEvent ''sessionId'' = None
   \<and> get (properties (toTaskEvent foreignEvent)) ''sessionId'' = Str ''ses_2''"
proof -
  note inst =
    spread_overrides_resolved
      [of overriddenEvent "Str ''ses_2''" "''ses_1''" "Some ''task-1''" True "[]" "Str ''msg_2''"]
    spread_overrides_resolved
      [of overriddenEvent "Str ''ses_2''" "''ses_2''" "Some ''task-1''" True "[]" "Str ''msg_2''"]
    spread_overrides_resolved [of partSessionEvent]
    spread_overrides_resolved [of foreignEvent]
  have upstream:
    "oc_properties overriddenEvent ''sessionId'' = Some (Str ''ses_2'')"
    "oc_properties overriddenEvent ''messageId'' = Some (Str ''msg_2'')"
    "oc_properties partSessionEvent ''sessionId'' = None"
    "oc_properties partSessionEvent ''messageId'' = None"
    "oc_properties foreignEvent ''sessionId'' = None"
    by (simp_all add: overriddenEvent_def partSessionEvent_def foreignEvent_def)
  have resolved:
    "resolvedSessionId (oc_properties overriddenEvent) = Str ''ses_1''"
    "resolvedMessageId (oc_properties overriddenEvent) = Str ''msg_1''"
    by (simp_all add: overriddenEvent_def resolvedSessionId_def resolvedMessageId_def
        js_or_def get_def)
  have reads:
    "get (oc_properties partSessionEvent) ''sessionID'' = Undefined"
    "get (oc_properties partSessionEvent) ''messageID'' = Undefined"
    "opt_chain (get (oc_properties partSessionEvent) ''part'') ''sessionID'' = Str ''ses_1''"
    "opt_chain (get (oc_properties partSessionEvent) ''part'') ''messageID'' = Str ''msg_1''"
    "get (oc_properties foreignEvent) ''sessionID'' = Str ''ses_2''"
    by (simp_all add: partSessionEvent_def foreignEvent_def get_def)
  from inst upstream resolved reads show ?thesis by simp
qed

section \<open>Properties of the status derivation\<close>

lemma deriveLoop_foldl: "deriveLoop events acc = foldl specFoldRule acc events"
  by (induction events acc rule: deriveLoop.induct)
     (auto simp: specFoldRule_def strict_eq_str_def)

lemma deriveStatus_snoc:
  "deriveStatus (events @ [e]) = specFoldRule (deriveStatus events) e"
  by (simp add: deriveStatus_def deriveLoop_foldl)

lemma deriveLoop_unmatched:
  "\<forall>x\<in>set events. \<not> matchesRule x \<Longrightarrow> deriveLoop events acc = acc"
  by (induction events arbitrary: acc)
     (auto simp: matchesRule_def strict_eq_str_def)

lemma deriveLoop_complete_stays: "snd (deriveLoop events (s, True)) = True"
  by (induction events arbitrary: s) auto

text \<open>
  Claim C2. \<open>deriveStatus\<close> is the left fold of the specification's rules over the events
  in order, from (unknown, false): appending a \<^verbatim>\<open>session.status\<close> event whose
  \<^verbatim>\<open>properties.status.type\<close> is \<^verbatim>\<open>busy\<close> sets the status to busy, with \<^verbatim>\<open>idle\<close> to idle (the
  flag stays); a \<^verbatim>\<open>session.idle\<close> event gives (completed, true); an \<^verbatim>\<open>error\<close> event gives
  (error, true); an event of any other type changes nothing; and when no event matches a
  rule the result is (unknown, false).
\<close>

theorem deriveStatus_fold:
  "deriveStatus events = foldl specFoldRule (Unknown, False) events
   \<and> deriveStatus [] = (Unknown, False)
   \<and> (ev_type e = ''session.status'' \<and> statusType e = Str ''busy'' \<longrightarrow>
        deriveStatus (events @ [e]) = (Busy, snd (deriveStatus events)))
   \<and> (ev_type e = ''session.status'' \<and> statusType e = Str ''idle'' \<longrightarrow>
        deriveStatus (events @ [e]) = (Idle, snd (deriveStatus events)))
   \<and> (ev_type e = ''session.idle'' \<longrightarrow> deriveStatus (events @ [e]) = (Completed, True))
   \<and> (ev_type e = ''error'' \<longrightarrow> deriveStatus (events @ [e]) = (Error, True))
   \<and> (ev_type e \<notin> {''session.status'', ''session.idle'', ''error''} \<longrightarrow>
        deriveStatus (events @ [e]) = deriveStatus events)
   \<and> ((\<forall>x\<in>set events. \<not> matchesRule x) \<longrightarrow> deriveStatus events = (Unknown, False))"
proof -
  have fold: "deriveStatus events = foldl specFoldRule (Unknown, False) events"
    by (simp add: deriveStatus_def deriveLoop_foldl)
  have nil: "deriveStatus [] = (Unknown, False)"
    by (simp add: deriveStatus_def)
  have unmatched:
    "(\<forall>x\<in>set events. \<not> matchesRule x) \<longrightarrow> deriveStatus events = (Unknown, False)"
    by (simp add: deriveStatus_def deriveLoop_unmatched)
  have snoc:
    "(ev_type e = ''session.status'' \<and> statusType e = Str ''busy'' \<longrightarrow>
        deriveStatus (events @ [e]) = (Busy, snd (deriveStatus events)))
     \<and> (ev_type e = ''session.status'' \<and> statusType e = Str ''idle'' \<longrightarrow>
        deriveStatus (events @ [e]) = (Idle, snd (deriveStatus events)))
     \<and> (ev_type e = ''session.idle'' \<longrightarrow> deriveStatus (events @ [e]) = (Completed, True))
     \<and> (ev_type e = ''error'' \<longrightarrow> deriveStatus (events @ [e]) = (Error, True))
     \<and> (ev_type e \<notin> {''session.status'', ''session.idle'', ''error''} \<longrightarrow>
        deriveStatus (events @ [e]) = deriveStatus events)"
    by (simp add: deriveStatus_snoc specFoldRule_def)
  from fold nil unmatched snoc show ?thesis by blast
qed

text \<open>Each rule of the fold run on an event that meets its condition.\<close>

theorem deriveStatus_fold_witness:
  "ev_type busyEvent = ''session.status'' \<and> statusType busyEvent = Str ''busy''
   \<and> deriveStatus ([] @ [busyEvent]) = (Busy, False)
   \<and> ev_type idleStatusEvent = ''session.status'' \<and> statusType idleStatusEvent = Str ''idle''
   \<and> deriveStatus ([busyEvent] @ [idleStatusEvent]) = (Idle, False)
   \<and> ev_type sessionIdleEvent = ''session.idle''
   \<and> deriveStatus ([busyEvent] @ [sessionIdleEvent]) = (Completed, True)
   \<and> ev_type errorEvent = ''error''
   \<and> deriveStatus ([busyEvent] @ [errorEvent]) = (Error, True)
   \<and> ev_type deltaEvent \<notin> {''session.status'', ''session.idle'', ''error''}
   \<and> deriveStatus ([busyEvent] @ [deltaEvent]) = deriveStatus [busyEvent]
   \<and> \<not> matchesRule deltaEvent
   \<and> deriveStatus [deltaEvent, deltaEvent] = (Unknown, False)"
  using deriveStatus_fold [of "[]" busyEvent]
    deriveStatus_fold [of "[busyEvent]" idleStatusEvent]
    deriveStatus_fold [of "[busyEvent]" sessionIdleEvent]
    deriveStatus_fold [of "[busyEvent]" errorEvent]
    deriveStatus_fold [of "[busyEvent]" deltaEvent]
    deriveStatus_fold [of "[deltaEvent, deltaEvent]" deltaEvent]
  by (simp add: busyEvent_def idleStatusEvent_def sessionIdleEvent_def errorEvent_def
      deltaEvent_def statusType_def get_def matchesRule_def specFoldRule_def)

text \<open>
  Claim C8. For a \<^verbatim>\<open>session.status\<close> event with status type \<^verbatim>\<open>busy\<close> followed by a
  \<^verbatim>\<open>session.idle\<close> event, \<open>deriveStatus\<close> gives (completed, true), and after any further
  events whose type is neither \<^verbatim>\<open>session.idle\<close> nor \<^verbatim>\<open>error\<close> the completion flag is still
  true.
\<close>

theorem terminal_status_monotone:
  "ev_type e1 = ''session.status'' \<Longrightarrow> statusType e1 = Str ''busy'' \<Longrightarrow>
   ev_type e2 = ''session.idle'' \<Longrightarrow>
   deriveStatus [e1, e2] = (Completed, True)
   \<and> ((\<forall>e\<in>set es. ev_type e \<noteq> ''session.idle'' \<and> ev_type e \<noteq> ''error'') \<longrightarrow>
        snd (deriveStatus ([e1, e2] @ es)) = True)"
  by (simp add: deriveStatus_def strict_eq_str_def deriveLoop_complete_stays)

text \<open>
  The scenario run with a later \<^verbatim>\<open>session.status\<close> and a text event: the status moves to
  busy again and the flag stays true.
\<close>

theorem terminal_status_monotone_witness:
  "ev_type busyEvent = ''session.status'' \<and> statusType busyEvent = Str ''busy''
   \<and> ev_type sessionIdleEvent = ''session.idle''
   \<and> deriveStatus [busyEvent, sessionIdleEvent] = (Completed, True)
   \<and> ev_type deltaEvent \<noteq> ''session.idle'' \<and> ev_type deltaEvent \<noteq> ''error''
   \<and> snd (deriveStatus ([busyEvent, sessionIdleEvent] @ [busyEvent, deltaEvent])) = True
   \<and> deriveStatus [busyEvent, sessionIdleEvent, busyEvent, deltaEvent] = (Busy, True)"
  using terminal_status_monotone [of busyEvent sessionIdleEvent "[busyEvent, deltaEvent]"]
  by (simp add: busyEvent_def sessionIdleEvent_def deltaEvent_def statusType_def get_def
      deriveStatus_def strict_eq_str_def)

section \<open>Properties of the worker\<close>

lemma run_exec_eq:
  "run_exec p key c cwd w =
     (fst (exec p key c cwd (ctx w)),
      \<lparr> ctx = snd (exec p key c cwd (ctx w)),
        trace = trace w @ [Exec key c cwd (fst (exec p key c cwd (ctx w)))] \<rparr>)"
  by (simp add: run_exec_def case_prod_beta)

lemma run_execStream_eq:
  "run_execStream p key c w =
     (fst (execStream p key c (ctx w)),
      \<lparr> ctx = snd (execStream p key c (ctx w)), trace = trace w @ [ExecStream key c] \<rparr>)"
  by (simp add: run_execStream_def case_prod_beta)

lemma str_includes_sublist: "str_includes s sub = sublist sub s"
  by (induction s) (auto simp: sublist_Cons_right)

subsection \<open>Task creation\<close>

text \<open>
  Claim C3, as amended. If the clone command does not succeed, the create handler makes
  no further call to the execution context (no process start, no readiness probe, no
  session-creation call: the clone is the only effect) and answers 500 with the error
  \<^verbatim>\<open>Failed to clone repository: \<close> followed by the standard error output of the clone
  command, verbatim.
\<close>

theorem clone_failure_short_circuit:
  "fst (exec p taskId (cloneCommand req) None (ctx w)) = Inr cloneResult \<Longrightarrow>
   \<not> success cloneResult \<Longrightarrow>
   createTaskHandler p taskId created started req w =
     (JsonError (''Failed to clone repository: '' @ stderr cloneResult) 500,
      \<lparr> ctx = snd (exec p taskId (cloneCommand req) None (ctx w)),
        trace = trace w @ [Exec taskId (cloneCommand req) None (Inr cloneResult)] \<rparr>)"
  by (simp add: createTaskHandler_def run_exec_eq)

text \<open>The handler run on a context whose clone exits with 128.\<close>

theorem clone_failure_short_circuit_witness:
  "fst (exec cloneFails ''task-1'' (cloneCommand request0) None (ctx world0))
     = Inr (failed 128 ''fatal: repository not found'')
   \<and> \<not> success (failed 128 ''fatal: repository not found'')
   \<and> createTaskHandler cloneFails ''task-1'' ''t0'' ''t1'' request0 world0
     = (JsonError ''Failed to clone repository: fatal: repository not found'' 500,
        \<lparr> ctx = 1,
          trace = [Exec ''task-1''
                     ''git clone --branch main --single-branch https://example.com/r.git /workspace/repo''
                     None (Inr (failed 128 ''fatal: repository not found''))] \<rparr>)"
  using clone_failure_short_circuit
          [of cloneFails "''task-1''" request0 world0
              "failed 128 ''fatal: repository not found''" "''t0''" "''t1''"]
  by (simp add: cloneFails_def scripted_def failed_def world0_def request0_def cloneCommand_def)

text \<open>
  Claim C3 as stated fails in its last part: the clone prints
  \<^verbatim>\<open>fatal: repository not found\<close> and the error returned is not exactly that text.
\<close>

theorem clone_failure_text_counterexample:
  "fst (exec cloneFails ''task-1'' (cloneCommand request0) None (ctx world0))
     = Inr (failed 128 ''fatal: repository not found'')
   \<and> \<not> success (failed 128 ''fatal: repository not found'')
   \<and> stderr (failed 128 ''fatal: repository not found'') = ''fatal: repository not found''
   \<and> fst (createTaskHandler cloneFails ''task-1'' ''t0'' ''t1'' request0 world0)
       \<noteq> JsonError ''fatal: repository not found'' 500"
  by (simp add: createTaskHandler_def run_exec_eq cloneFails_def scripted_def failed_def)

subsection \<open>The readiness poller\<close>

lemma trace_run_exec:
  "trace (snd (run_exec p key c cwd w))
     = trace w @ [Exec key c cwd (fst (run_exec p key c cwd w))]"
  by (simp add: run_exec_eq)

lemma waitLoop_trace:
  "\<exists>fails. (\<forall>r\<in>set fails. \<not> probeReady r) \<and>
     (case fst (waitLoop p key i n iv w) of
        Inr ready \<Rightarrow>
          if ready
          then i + length fails < n \<and>
               (\<exists>r. probeReady r \<and>
                  trace (snd (waitLoop p key i n iv w))
                    = trace w @ attempts key iv fails @ [Exec key probeCommand None (Inr r)])
          else (i + length fails = n \<or> (n \<le> i \<and> fails = [])) \<and>
               trace (snd (waitLoop p key i n iv w)) = trace w @ attempts key iv fails
      | Inl rejection \<Rightarrow>
          i + length fails < n \<and>
          trace (snd (waitLoop p key i n iv w))
            = trace w @ attempts key iv fails @ [Exec key probeCommand None (Inl rejection)])"
proof (induction p key i n iv w rule: waitLoop.induct)
  case (1 p key i n iv w)
  show ?case
  proof (cases "i < n")
    case False
    then show ?thesis
      by (intro exI[of _ "[]"]) (simp add: attempts_def)
  next
    case True
    define rw where "rw = run_exec p key probeCommand None w"
    show ?thesis
    proof (cases "fst rw")
      case (Inl rejection)
      have "waitLoop p key i n iv w = (Inl rejection, snd rw)"
        using True Inl by (subst waitLoop.simps) (simp add: rw_def Let_def)
      then show ?thesis
        using True Inl
        by (intro exI[of _ "[]"]) (auto simp: attempts_def rw_def trace_run_exec)
    next
      case (Inr result)
      show ?thesis
      proof (cases "probeReady result")
        case ready: True
        have "waitLoop p key i n iv w = (Inr True, snd rw)"
          using True Inr ready by (subst waitLoop.simps) (simp add: rw_def Let_def)
        then show ?thesis
          using True Inr ready
          by (intro exI[of _ "[]"]) (auto simp: attempts_def rw_def trace_run_exec)
      next
        case notready: False
        let ?w1 = "sleep iv (snd rw)"
        let ?rest = "waitLoop p key (i + 1) n iv ?w1"
        have eq: "waitLoop p key i n iv w = ?rest"
          using True Inr notready by (subst waitLoop.simps) (simp add: rw_def Let_def)
        from "1.IH"[OF True rw_def Inr notready]
        obtain fails where f: "\<forall>r\<in>set fails. \<not> probeReady r"
          and rest:
            "case fst ?rest of
               Inr ready \<Rightarrow>
                 if ready
                 then i + 1 + length fails < n \<and>
                      (\<exists>r. probeReady r \<and>
                         trace (snd ?rest)
                           = trace ?w1 @ attempts key iv fails
                             @ [Exec key probeCommand None (Inr r)])
                 else (i + 1 + length fails = n \<or> (n \<le> i + 1 \<and> fails = [])) \<and>
                      trace (snd ?rest) = trace ?w1 @ attempts key iv fails
             | Inl rejection \<Rightarrow>
                 i + 1 + length fails < n \<and>
                 trace (snd ?rest)
                   = trace ?w1 @ attempts key iv fails
                     @ [Exec key probeCommand None (Inl rejection)]"
          by blast
        have tr: "trace ?w1 = trace w @ attempts key iv [result]"
          using Inr by (simp add: sleep_def rw_def trace_run_exec attempts_def)
        have app:
          "attempts key iv [result] @ attempts key iv fails = attempts key iv (result # fails)"
          by (simp add: attempts_def)
        show ?thesis
          apply (rule exI[of _ "result # fails"])
          using f notready rest True unfolding eq tr
          by (auto simp: app[symmetric] split: if_splits sum.splits)
      qed
    qed
  qed
qed

lemma waitLoop_never:
  "\<forall>s. \<exists>r. fst (exec p key probeCommand None s) = Inr r \<and> \<not> probeReady r \<Longrightarrow>
   fst (waitLoop p key i n iv w) = Inr False
   \<and> length (filter isProbe (trace (snd (waitLoop p key i n iv w))))
       = length (filter isProbe (trace w)) + (n - i)"
proof (induction p key i n iv w rule: waitLoop.induct)
  case (1 p key i n iv w)
  show ?case
  proof (cases "i < n")
    case False
    then show ?thesis by simp
  next
    case True
    define rw where "rw = run_exec p key probeCommand None w"
    from "1.prems" obtain result where res: "fst rw = Inr result" and nr: "\<not> probeReady result"
      unfolding rw_def run_exec_eq by auto
    have eq: "waitLoop p key i n iv w = waitLoop p key (i + 1) n iv (sleep iv (snd rw))"
      using True res nr by (subst waitLoop.simps) (simp add: rw_def Let_def)
    have tr: "length (filter isProbe (trace (sleep iv (snd rw))))
                = length (filter isProbe (trace w)) + 1"
      by (simp add: sleep_def rw_def trace_run_exec)
    from "1.IH"[OF True rw_def res nr "1.prems"] tr True show ?thesis
      unfolding eq by simp
  qed
qed

text \<open>
  Claim C4. The poller probes at most \<open>maxAttempts\<close> times. Its effects are a run of
  failed probes, each followed by a sleep of \<open>intervalMs\<close>, and then, when it returns true,
  one successful probe after fewer than \<open>maxAttempts\<close> failed ones; when it returns false
  there were exactly \<open>maxAttempts\<close> failed probes. (The only other outcome is that the
  execution context rejects a probe call, which ends the run at that call.) With a probe
  that never succeeds and \<open>maxAttempts = 3\<close> the probe is called exactly three times and the
  result is false.
\<close>

theorem readiness_budget:
  "(\<exists>fails. (\<forall>r\<in>set fails. \<not> probeReady r) \<and>
      (case fst (waitForOpenCode p key maxAttempts intervalMs w) of
         Inr ready \<Rightarrow>
           if ready
           then length fails < maxAttempts \<and>
                (\<exists>r. probeReady r \<and>
                   trace (snd (waitForOpenCode p key maxAttempts intervalMs w))
                     = trace w @ attempts key intervalMs fails
                       @ [Exec key probeCommand None (Inr r)])
           else length fails = maxAttempts \<and>
                trace (snd (waitForOpenCode p key maxAttempts intervalMs w))
                  = trace w @ attempts key intervalMs fails
       | Inl rejection \<Rightarrow>
           length fails < maxAttempts \<and>
           trace (snd (waitForOpenCode p key maxAttempts intervalMs w))
             = trace w @ attempts key intervalMs fails
               @ [Exec key probeCommand None (Inl rejection)]))
   \<and> ((\<forall>s. \<exists>r. fst (exec p key probeCommand None s) = Inr r \<and> \<not> probeReady r) \<longrightarrow>
        fst (waitForOpenCode p key 3 intervalMs w) = Inr False
        \<and> length (filter isProbe (trace (snd (waitForOpenCode p key 3 intervalMs w))))
            = length (filter isProbe (trace w)) + 3)"
proof -
  have general:
    "\<exists>fails. (\<forall>r\<in>set fails. \<not> probeReady r) \<and>
      (case fst (waitForOpenCode p key maxAttempts intervalMs w) of
         Inr ready \<Rightarrow>
           if ready
           then length fails < maxAttempts \<and>
                (\<exists>r. probeReady r \<and>
                   trace (snd (waitForOpenCode p key maxAttempts intervalMs w))
                     = trace w @ attempts key intervalMs fails
                       @ [Exec key probeCommand None (Inr r)])
           else length fails = maxAttempts \<and>
                trace (snd (waitForOpenCode p key maxAttempts intervalMs w))
                  = trace w @ attempts key intervalMs fails
       | Inl rejection \<Rightarrow>
           length fails < maxAttempts \<and>
           trace (snd (waitForOpenCode p key maxAttempts intervalMs w))
             = trace w @ attempts key intervalMs fails
               @ [Exec key probeCommand None (Inl rejection)])"
  proof -
    from waitLoop_trace [where p = p and key = key and i = 0 and n = maxAttempts
            and iv = intervalMs and w = w]
    obtain fails where f: "\<forall>r\<in>set fails. \<not> probeReady r"
      and c:
        "case fst (waitLoop p key 0 maxAttempts intervalMs w) of
           Inr ready \<Rightarrow>
             if ready
             then 0 + length fails < maxAttempts \<and>
                  (\<exists>r. probeReady r \<and>
                     trace (snd (waitLoop p key 0 maxAttempts intervalMs w))
                       = trace w @ attempts key intervalMs fails
                         @ [Exec key probeCommand None (Inr r)])
             else (0 + length fails = maxAttempts \<or> (maxAttempts \<le> 0 \<and> fails = [])) \<and>
                  trace (snd (waitLoop p key 0 maxAttempts intervalMs w))
                    = trace w @ attempts key intervalMs fails
         | Inl rejection \<Rightarrow>
             0 + length fails < maxAttempts \<and>
             trace (snd (waitLoop p key 0 maxAttempts intervalMs w))
               = trace w @ attempts key intervalMs fails
                 @ [Exec key probeCommand None (Inl rejection)]"
      by blast
    show ?thesis
      unfolding waitForOpenCode_def
      apply (rule exI[of _ fails])
      using f c
      by (cases "fst (waitLoop p key 0 maxAttempts intervalMs w)")
         (auto simp del: waitLoop.simps split: if_splits)
  qed
  have never:
    "(\<forall>s. \<exists>r. fst (exec p key probeCommand None s) = Inr r \<and> \<not> probeReady r) \<longrightarrow>
        fst (waitForOpenCode p key 3 intervalMs w) = Inr False
        \<and> length (filter isProbe (trace (snd (waitForOpenCode p key 3 intervalMs w))))
            = length (filter isProbe (trace w)) + 3"
    using waitLoop_never [where p = p and key = key and i = 0 and n = 3
            and iv = intervalMs and w = w]
    unfolding waitForOpenCode_def by (simp del: waitLoop.simps)
  from general never show ?thesis by blast
qed

text \<open>
  The poller run with a budget of three on an agent that never answers (three probes,
  three sleeps, false) and on one that answers the second probe (true after one sleep).
\<close>

theorem readiness_budget_witness:
  "\<not> probeReady (ok (''not ready'' @ [CHR 0x0A]))
   \<and> waitForOpenCode neverReady ''task-1'' 3 0 world0
     = (Inr False,
        \<lparr> ctx = 3,
          trace = [Exec ''task-1'' probeCommand None (Inr (ok (''not ready'' @ [CHR 0x0A]))),
                   Sleep 0,
                   Exec ''task-1'' probeCommand None (Inr (ok (''not ready'' @ [CHR 0x0A]))),
                   Sleep 0,
                   Exec ''task-1'' probeCommand None (Inr (ok (''not ready'' @ [CHR 0x0A]))),
                   Sleep 0] \<rparr>)
   \<and> length (filter isProbe (trace (snd (waitForOpenCode neverReady ''task-1'' 3 0 world0)))) = 3
   \<and> probeReady (ok ''[]'')
   \<and> waitForOpenCode readySecond ''task-1'' 3 1000 world0
     = (Inr True,
        \<lparr> ctx = 2,
          trace = [Exec ''task-1'' probeCommand None (Inr (ok (''not ready'' @ [CHR 0x0A]))),
                   Sleep 1000,
                   Exec ''task-1'' probeCommand None (Inr (ok ''[]''))] \<rparr>)"
  using readiness_budget
          [where p = neverReady and key = "''task-1''" and maxAttempts = 3 and intervalMs = 0
             and w = world0]
    readiness_budget
          [where p = readySecond and key = "''task-1''" and maxAttempts = 3
             and intervalMs = 1000 and w = world0]
  by (simp add: waitForOpenCode_def neverReady_def readySecond_def scripted_def world0_def
      Let_def run_exec_def probeReady_def ok_def sleep_def)

subsection \<open>The session-creation response\<close>

lemma createTaskHandler_session:
  "run_exec p taskId (cloneCommand req) None w = (Inr cloneResult, w1) \<Longrightarrow>
   success cloneResult \<Longrightarrow>
   run_startProcess p taskId serveCommand (Some ''/workspace/repo'') serveEnv w1
      = (Inr u, w2) \<Longrightarrow>
   waitForOpenCode p taskId 30 1000 w2 = (Inr True, w3) \<Longrightarrow>
   run_exec p taskId
      (curlCommand p ''POST'' ''http://localhost:4096/session'' (Some (sessionBody req)))
      None w3 = (Inr r, w4) \<Longrightarrow>
   fst (createTaskHandler p taskId created started req w) =
     (if \<not> success r then
        JsonError (''Failed to create session: curl failed: '' @ stderr r) 500
      else
        (case JSON_parse p (stdout r) of
           Inl message \<Rightarrow>
             JsonError (''Failed to create session: Failed to parse JSON: '' @ message) 500
         | Inr d \<Rightarrow>
             (case validateSessionResponse p d of
                Inl message \<Rightarrow> JsonError message 500
              | Inr sid \<Rightarrow>
                  (case fst (run_startProcess p taskId (messageCommand p req sid)
                               (Some ''/workspace/repo'') [] w4) of
                     Inl rejection \<Rightarrow> JsonError rejection 500
                   | Inr process \<Rightarrow>
                       JsonData (TaskData \<lparr> task_id = taskId, task_status = Running,
                                   repoUrl = req_repoUrl req, branch = req_branch req,
                                   prompt = req_prompt req, sessionId = sid,
                                   createdAt = created, startedAt = started \<rparr>) 201))))"
  by (simp add: createTaskHandler_def curlJson_def Let_def split: sum.splits prod.splits)

lemma validateSessionResponse_cases:
  "(OpenCodeSessionResponseSchema d = Some sid \<longrightarrow> validateSessionResponse p d = Inr sid)
   \<and> (OpenCodeSessionResponseSchema d = None
        \<and> OpenCodeErrorResponseSchema d = Some (Some e, m) \<and> e \<noteq> [] \<longrightarrow>
        validateSessionResponse p d = Inl (''OpenCode API error: '' @ e))
   \<and> (OpenCodeSessionResponseSchema d = None
        \<and> OpenCodeErrorResponseSchema d = Some (e', Some m') \<and> \<not> truthyStr e' \<and> m' \<noteq> [] \<longrightarrow>
        validateSessionResponse p d = Inl (''OpenCode API error: '' @ m'))
   \<and> (OpenCodeSessionResponseSchema d = None
        \<and> (OpenCodeErrorResponseSchema d = None
            \<or> (\<exists>a b. OpenCodeErrorResponseSchema d = Some (a, b)
                  \<and> \<not> truthyStr a \<and> \<not> truthyStr b)) \<longrightarrow>
        validateSessionResponse p d
          = Inl (''Unexpected session response format: '' @ JSON_stringify p d))"
  by (auto simp: validateSessionResponse_def orStr_def split: option.splits)

text \<open>
  Claim C5, as amended. When the create handler reaches the session-creation call (the
  clone succeeded, the agent process was started and became ready) and that call returns
  the result \<open>r\<close>, the answer of the handler is decided as follows. If the \<^verbatim>\<open>curl\<close> failed,
  or its output is not JSON, the handler fails with \<^verbatim>\<open>Failed to create session: \<close>
  followed by the \<^verbatim>\<open>curl\<close> or the parse error. Otherwise the output parses to a response
  \<open>d\<close>, validated in three cases. If \<open>d\<close> matches the session schema the handler goes on
  with the session id of \<open>d\<close>: it dispatches the prompt to that session and answers 201
  with it. If \<open>d\<close> instead matches the error envelope and its \<^verbatim>\<open>error\<close> is a non-empty
  string, or else its \<^verbatim>\<open>message\<close> is one, the handler fails with \<^verbatim>\<open>OpenCode API error: \<close>
  followed by that string. Every other parsed response (\<open>d\<close> matches neither schema, or it
  matches the envelope and neither field is a non-empty string) fails with
  \<^verbatim>\<open>Unexpected session response format: \<close> followed by \<^verbatim>\<open>JSON.stringify(d)\<close>.
\<close>

theorem session_response_validation:
  "run_exec p taskId (cloneCommand req) None w = (Inr cloneResult, w1) \<Longrightarrow>
   success cloneResult \<Longrightarrow>
   run_startProcess p taskId serveCommand (Some ''/workspace/repo'') serveEnv w1
      = (Inr u, w2) \<Longrightarrow>
   waitForOpenCode p taskId 30 1000 w2 = (Inr True, w3) \<Longrightarrow>
   run_exec p taskId
      (curlCommand p ''POST'' ''http://localhost:4096/session'' (Some (sessionBody req)))
      None w3 = (Inr r, w4) \<Longrightarrow>
   (\<not> success r \<longrightarrow>
      fst (createTaskHandler p taskId created started req w)
        = JsonError (''Failed to create session: curl failed: '' @ stderr r) 500)
   \<and> (success r \<and> JSON_parse p (stdout r) = Inl parseError \<longrightarrow>
      fst (createTaskHandler p taskId created started req w)
        = JsonError (''Failed to create session: Failed to parse JSON: '' @ parseError) 500)
   \<and> (success r \<and> JSON_parse p (stdout r) = Inr d \<longrightarrow>
      (OpenCodeSessionResponseSchema d = Some sid \<longrightarrow>
         fst (createTaskHandler p taskId created started req w)
           = (case fst (run_startProcess p taskId (messageCommand p req sid)
                          (Some ''/workspace/repo'') [] w4) of
                Inl rejection \<Rightarrow> JsonError rejection 500
              | Inr process \<Rightarrow>
                  JsonData (TaskData \<lparr> task_id = taskId, task_status = Running,
                              repoUrl = req_repoUrl req, branch = req_branch req,
                              prompt = req_prompt req, sessionId = sid,
                              createdAt = created, startedAt = started \<rparr>) 201))
      \<and> (OpenCodeSessionResponseSchema d = None
           \<and> OpenCodeErrorResponseSchema d = Some (Some e, m) \<and> e \<noteq> [] \<longrightarrow>
         fst (createTaskHandler p taskId created started req w)
           = JsonError (''OpenCode API error: '' @ e) 500)
      \<and> (OpenCodeSessionResponseSchema d = None
           \<and> OpenCodeErrorResponseSchema d = Some (e', Some m') \<and> \<not> truthyStr e'
           \<and> m' \<noteq> [] \<longrightarrow>
         fst (createTaskHandler p taskId created started req w)
           = JsonError (''OpenCode API error: '' @ m') 500)
      \<and> (OpenCodeSessionResponseSchema d = None
           \<and> (OpenCodeErrorResponseSchema d = None
               \<or> (\<exists>a b. OpenCodeErrorResponseSchema d = Some (a, b)
                     \<and> \<not> truthyStr a \<and> \<not> truthyStr b)) \<longrightarrow>
         fst (createTaskHandler p taskId created started req w)
           = JsonError (''Unexpected session response format: '' @ JSON_stringify p d) 500))"
  using validateSessionResponse_cases [of d sid p e m e' m']
  by (simp add: createTaskHandler_session
           [of p taskId req w cloneResult w1 u w2 w3 r w4 created started])

lemma scripted_bootstrap:
  "run_exec (sessionAnswers r parsed) ''task-1'' (cloneCommand request0) None world0
     = (Inr (ok ''[]''),
        \<lparr> ctx = 1, trace = [Exec ''task-1'' (cloneCommand request0) None (Inr (ok ''[]''))] \<rparr>)"
  "run_startProcess (sessionAnswers r parsed) ''task-1'' serveCommand
     (Some ''/workspace/repo'') serveEnv
     \<lparr> ctx = 1, trace = [Exec ''task-1'' (cloneCommand request0) None (Inr (ok ''[]''))] \<rparr>
     = (Inr (),
        \<lparr> ctx = 1,
          trace = [Exec ''task-1'' (cloneCommand request0) None (Inr (ok ''[]'')),
                   StartProcess ''task-1'' serveCommand (Some ''/workspace/repo'') serveEnv] \<rparr>)"
  "waitForOpenCode (sessionAnswers r parsed) ''task-1'' 30 1000
     \<lparr> ctx = 1,
       trace = [Exec ''task-1'' (cloneCommand request0) None (Inr (ok ''[]'')),
                StartProcess ''task-1'' serveCommand (Some ''/workspace/repo'') serveEnv] \<rparr>
     = (Inr True,
        \<lparr> ctx = 2,
          trace = [Exec ''task-1'' (cloneCommand request0) None (Inr (ok ''[]'')),
                   StartProcess ''task-1'' serveCommand (Some ''/workspace/repo'') serveEnv,
                   Exec ''task-1'' probeCommand None (Inr (ok ''[]''))] \<rparr>)"
  "run_exec (sessionAnswers r parsed) ''task-1''
     (curlCommand (sessionAnswers r parsed) ''POST'' ''http://localhost:4096/session''
        (Some (sessionBody request0)))
     None
     \<lparr> ctx = 2,
       trace = [Exec ''task-1'' (cloneCommand request0) None (Inr (ok ''[]'')),
                StartProcess ''task-1'' serveCommand (Some ''/workspace/repo'') serveEnv,
                Exec ''task-1'' probeCommand None (Inr (ok ''[]''))] \<rparr>
     = (Inr r,
        \<lparr> ctx = 3,
          trace = [Exec ''task-1'' (cloneCommand request0) None (Inr (ok ''[]'')),
                   StartProcess ''task-1'' serveCommand (Some ''/workspace/repo'') serveEnv,
                   Exec ''task-1'' probeCommand None (Inr (ok ''[]'')),
                   Exec ''task-1''
                     (curlCommand (sessionAnswers r parsed) ''POST''
                        ''http://localhost:4096/session'' (Some (sessionBody request0)))
                     None (Inr r)] \<rparr>)"
  by (simp_all add: run_exec_eq sessionAnswers_def scripted_def world0_def ok_def
      waitForOpenCode_def Let_def probeReady_def run_startProcess_def)

text \<open>
  The create handler run to the session-creation call on scripted contexts: the agent
  answers with a session, with an error envelope, with an envelope whose \<^verbatim>\<open>error\<close> is empty
  and whose \<^verbatim>\<open>message\<close> is not, with an array, with an empty object, with a text that is
  not JSON, and the \<^verbatim>\<open>curl\<close> fails.
\<close>

theorem session_response_validation_witness:
  "fst (createTaskHandler sessionCreated ''task-1'' ''t0'' ''t1'' request0 world0)
        = JsonData (TaskData \<lparr> task_id = ''task-1'', task_status = Running,
                      repoUrl = ''https://example.com/r.git'', branch = ''main'',
                      prompt = ''add readme'', sessionId = ''ses_1'',
                      createdAt = ''t0'', startedAt = ''t1'' \<rparr>) 201
   \<and> fst (createTaskHandler (sessionAnswers (ok ''{}'') (Obj [''error'' \<mapsto> Str ''boom'']))
            ''task-1'' ''t0'' ''t1'' request0 world0)
        = JsonError ''OpenCode API error: boom'' 500
   \<and> fst (createTaskHandler
            (sessionAnswers (ok ''{}'')
               (Obj [''error'' \<mapsto> Str [], ''message'' \<mapsto> Str ''busy'']))
            ''task-1'' ''t0'' ''t1'' request0 world0)
        = JsonError ''OpenCode API error: busy'' 500
   \<and> fst (createTaskHandler (sessionAnswers (ok ''{}'') (Arr []))
            ''task-1'' ''t0'' ''t1'' request0 world0)
        = JsonError ''Unexpected session response format: <json>'' 500
   \<and> fst (createTaskHandler (sessionAnswers (ok ''{}'') (Obj Map.empty))
            ''task-1'' ''t0'' ''t1'' request0 world0)
        = JsonError ''Unexpected session response format: <json>'' 500
   \<and> fst (createTaskHandler (sessionAnswers (ok []) Null)
            ''task-1'' ''t0'' ''t1'' request0 world0)
        = JsonError
            ''Failed to create session: Failed to parse JSON: Unexpected end of JSON input'' 500
   \<and> fst (createTaskHandler (sessionAnswers (failed 7 ''curl: (7) Failed to connect'') Null)
            ''task-1'' ''t0'' ''t1'' request0 world0)
        = JsonError ''Failed to create session: curl failed: curl: (7) Failed to connect'' 500"
proof -
  have s: "success (ok ''[]'')"
    by (simp add: ok_def)
  let ?created = "Obj [''id'' \<mapsto> Str ''ses_1'']"
  let ?boom = "Obj [''error'' \<mapsto> Str ''boom'']"
  let ?busy = "Obj [''error'' \<mapsto> Str [], ''message'' \<mapsto> Str ''busy'']"
  let ?down = "failed 7 ''curl: (7) Failed to connect''"
  show ?thesis
    using session_response_validation
        [OF scripted_bootstrap(1) [of "ok ''{}''" ?created] s
            scripted_bootstrap(2) [of "ok ''{}''" ?created]
            scripted_bootstrap(3) [of "ok ''{}''" ?created]
            scripted_bootstrap(4) [of "ok ''{}''" ?created],
         where d = ?created and sid = "''ses_1''" and created = "''t0''" and started = "''t1''"]
      session_response_validation
        [OF scripted_bootstrap(1) [of "ok ''{}''" ?boom] s
            scripted_bootstrap(2) [of "ok ''{}''" ?boom]
            scripted_bootstrap(3) [of "ok ''{}''" ?boom]
            scripted_bootstrap(4) [of "ok ''{}''" ?boom],
         where d = ?boom and e = "''boom''" and m = None
           and created = "''t0''" and started = "''t1''"]
      session_response_validation
        [OF scripted_bootstrap(1) [of "ok ''{}''" ?busy] s
            scripted_bootstrap(2) [of "ok ''{}''" ?busy]
            scripted_bootstrap(3) [of "ok ''{}''" ?busy]
            scripted_bootstrap(4) [of "ok ''{}''" ?busy],
         where d = ?busy and e' = "Some []" and m' = "''busy''"
           and created = "''t0''" and started = "''t1''"]
      session_response_validation
        [OF scripted_bootstrap(1) [of "ok ''{}''" "Arr []"] s
            scripted_bootstrap(2) [of "ok ''{}''" "Arr []"]
            scripted_bootstrap(3) [of "ok ''{}''" "Arr []"]
            scripted_bootstrap(4) [of "ok ''{}''" "Arr []"],
         where d = "Arr []" and created = "''t0''" and started = "''t1''"]
      session_response_validation
        [OF scripted_bootstrap(1) [of "ok ''{}''" "Obj Map.empty"] s
            scripted_bootstrap(2) [of "ok ''{}''" "Obj Map.empty"]
            scripted_bootstrap(3) [of "ok ''{}''" "Obj Map.empty"]
            scripted_bootstrap(4) [of "ok ''{}''" "Obj Map.empty"],
         where d = "Obj Map.empty" and created = "''t0''" and started = "''t1''"]
      session_response_validation
        [OF scripted_bootstrap(1) [of "ok []" Null] s
            scripted_bootstrap(2) [of "ok []" Null]
            scripted_bootstrap(3) [of "ok []" Null]
            scripted_bootstrap(4) [of "ok []" Null],
         where parseError = "''Unexpected end of JSON input''"
           and created = "''t0''" and started = "''t1''"]
      session_response_validation
        [OF scripted_bootstrap(1) [of ?down Null] s
            scripted_bootstrap(2) [of ?down Null]
            scripted_bootstrap(3) [of ?down Null]
            scripted_bootstrap(4) [of ?down Null],
         where created = "''t0''" and started = "''t1''"]
    by (simp add: sessionCreated_def get_def request0_def sessionAnswers_def scripted_def
        ok_def failed_def run_startProcess_def)
qed

text \<open>
  Claim C5 as stated fails: the answer \<^verbatim>\<open>{"error": ""}\<close> does not match the session
  schema and matches the error envelope with its \<^verbatim>\<open>error\<close> field present, and the handler
  fails with the generic error of an unexpected response, not with an error made of the
  envelope's (empty) message.
\<close>

theorem session_response_validation_counterexample:
  "OpenCodeSessionResponseSchema emptyErrorEnvelope = None
   \<and> OpenCodeErrorResponseSchema emptyErrorEnvelope = Some (Some [], None)
   \<and> fst (createTaskHandler emptyErrorAnswer ''task-1'' ''t0'' ''t1'' request0 world0)
       = JsonError ''Unexpected session response format: <json>'' 500
   \<and> fst (createTaskHandler emptyErrorAnswer ''task-1'' ''t0'' ''t1'' request0 world0)
       \<noteq> JsonError ''OpenCode API error: '' 500"
  by (simp add: createTaskHandler_def run_exec_eq emptyErrorAnswer_def emptyErrorEnvelope_def
      sessionAnswers_def scripted_def world0_def ok_def waitForOpenCode_def Let_def
      probeReady_def run_startProcess_def curlJson_def validateSessionResponse_def orStr_def
      get_def)

subsection \<open>Abort, diff and events\<close>

text \<open>
  Claim C6, as amended. The abort handler answers 400 when the \<^verbatim>\<open>sessionId\<close> query
  parameter is missing or empty, and makes no call to the execution context then (the
  world is unchanged). When the parameter is a non-empty string the handler makes one
  call, the \<^verbatim>\<open>curl\<close> to the session-abort endpoint of the agent, and once that call has
  completed it answers 200 with \<^verbatim>\<open>success: true\<close> whatever the call returned. (A call that
  the execution context rejects is not caught: the error leaves the handler.)
\<close>

theorem abort_requires_session:
  "((query = None \<or> query = Some []) \<longrightarrow>
      abortHandler p taskId query w = (JsonError ''sessionId query parameter required'' 400, w))
   \<and> (query = Some sid \<and> sid \<noteq> []
        \<and> fst (exec p taskId
                  (curlCommand p ''POST'' (''http://localhost:4096/session/'' @ sid @ ''/abort'')
                     None)
                  None (ctx w)) = Inr r \<longrightarrow>
      fst (abortHandler p taskId query w) = JsonData (AbortData True taskId) 200
      \<and> trace (snd (abortHandler p taskId query w))
          = trace w @
            [Exec taskId
               (curlCommand p ''POST'' (''http://localhost:4096/session/'' @ sid @ ''/abort'') None)
               None (Inr r)])
   \<and> (query = Some sid \<and> sid \<noteq> []
        \<and> fst (exec p taskId
                  (curlCommand p ''POST'' (''http://localhost:4096/session/'' @ sid @ ''/abort'')
                     None)
                  None (ctx w)) = Inl rejection \<longrightarrow>
      fst (abortHandler p taskId query w) = Uncaught rejection)"
  by (auto simp: abortHandler_def curlJson_def run_exec_eq Let_def split: sum.splits)

text \<open>
  The handler run without the parameter, and with a session while the agent is down (the
  \<^verbatim>\<open>curl\<close> exits with 7): one call to the context, and \<^verbatim>\<open>success: true\<close>.
\<close>

theorem abort_requires_session_witness:
  "abortHandler agentDown ''task-1'' None world0
     = (JsonError ''sessionId query parameter required'' 400, world0)
   \<and> fst (exec agentDown ''task-1''
             (curlCommand agentDown ''POST'' ''http://localhost:4096/session/ses_1/abort'' None)
             None (ctx world0)) = Inr (failed 7 ''curl: (7) Failed to connect'')
   \<and> fst (abortHandler agentDown ''task-1'' (Some ''ses_1'') world0)
       = JsonData (AbortData True ''task-1'') 200
   \<and> trace (snd (abortHandler agentDown ''task-1'' (Some ''ses_1'') world0))
       = [Exec ''task-1''
            (curlCommand agentDown ''POST'' ''http://localhost:4096/session/ses_1/abort'' None)
            None (Inr (failed 7 ''curl: (7) Failed to connect''))]
   \<and> fst (abortHandler unavailable ''task-1'' (Some ''ses_1'') world0)
       = Uncaught ''sandbox unavailable''"
  using abort_requires_session
          [where query = None and p = agentDown and taskId = "''task-1''" and w = world0]
    abort_requires_session
          [where query = "Some ''ses_1''" and p = agentDown and taskId = "''task-1''"
             and w = world0 and sid = "''ses_1''"
             and r = "failed 7 ''curl: (7) Failed to connect''"]
    abort_requires_session
          [where query = "Some ''ses_1''" and p = unavailable and taskId = "''task-1''"
             and w = world0 and sid = "''ses_1''" and rejection = "''sandbox unavailable''"]
  by (simp add: agentDown_def unavailable_def scripted_def world0_def)

text \<open>
  Claim C6 as stated fails: with the parameter present and empty
  (\<^verbatim>\<open>?sessionId=\<close>) the handler answers 400 and forwards nothing.
\<close>

theorem abort_requires_session_counterexample:
  "abortHandler agentDown ''task-1'' (Some []) world0
     = (JsonError ''sessionId query parameter required'' 400, world0)
   \<and> fst (abortHandler agentDown ''task-1'' (Some []) world0)
       \<noteq> JsonData (AbortData True ''task-1'') 200"
  by (simp add: abortHandler_def)

text \<open>
  Claim C7, as amended. For every task id the diff handler makes one call,
  \<^verbatim>\<open>git diff HEAD\<close> in the repository directory of the task's execution context. When that
  call completes, the handler answers 200 with the standard output of the call as the
  diff, whatever its success flag and exit code: a command that fails or finds no change
  and prints nothing to standard output gives the empty string, with no distinct error
  answer. The handler has no error handling of its own: a call that the execution
  context rejects is not turned into an empty diff, the error leaves the handler and the
  request is answered with status 500.
\<close>

theorem diff_returns_stdout:
  "(fst (exec p taskId ''git diff HEAD'' (Some ''/workspace/repo'') (ctx w)) = Inr result \<longrightarrow>
      diffHandler p taskId w
        = (JsonData (DiffData (stdout result) taskId) 200,
           \<lparr> ctx = snd (exec p taskId ''git diff HEAD'' (Some ''/workspace/repo'') (ctx w)),
             trace = trace w @ [Exec taskId ''git diff HEAD'' (Some ''/workspace/repo'')
                                  (Inr result)] \<rparr>))
   \<and> (fst (exec p taskId ''git diff HEAD'' (Some ''/workspace/repo'') (ctx w)) = Inl rejection \<longrightarrow>
      diffHandler p taskId w
        = (Uncaught rejection,
           \<lparr> ctx = snd (exec p taskId ''git diff HEAD'' (Some ''/workspace/repo'') (ctx w)),
             trace = trace w @ [Exec taskId ''git diff HEAD'' (Some ''/workspace/repo'')
                                  (Inl rejection)] \<rparr>)
      \<and> httpStatus (fst (diffHandler p taskId w)) = 500)"
  by (simp add: diffHandler_def run_exec_eq)

text \<open>
  The handler run on a context with a change, on one where \<^verbatim>\<open>git\<close> exits with 128 and
  prints nothing to standard output, and on one that rejects the call.
\<close>

theorem diff_returns_stdout_witness:
  "fst (exec repositoryChanged ''task-1'' ''git diff HEAD'' (Some ''/workspace/repo'')
          (ctx world0)) = Inr (ok ''diff --git a/README.md b/README.md'')
   \<and> fst (diffHandler repositoryChanged ''task-1'' world0)
       = JsonData (DiffData ''diff --git a/README.md b/README.md'' ''task-1'') 200
   \<and> fst (exec noRepository ''task-1'' ''git diff HEAD'' (Some ''/workspace/repo'')
             (ctx world0)) = Inr (failed 128 ''fatal: not a git repository'')
   \<and> fst (diffHandler noRepository ''task-1'' world0) = JsonData (DiffData [] ''task-1'') 200
   \<and> fst (exec unavailable ''task-1'' ''git diff HEAD'' (Some ''/workspace/repo'')
             (ctx world0)) = Inl ''sandbox unavailable''
   \<and> fst (diffHandler unavailable ''task-1'' world0) = Uncaught ''sandbox unavailable''"
  using diff_returns_stdout
          [where p = repositoryChanged and taskId = "''task-1''" and w = world0
             and result = "ok ''diff --git a/README.md b/README.md''"]
    diff_returns_stdout
          [where p = noRepository and taskId = "''task-1''" and w = world0
             and result = "failed 128 ''fatal: not a git repository''"]
    diff_returns_stdout
          [where p = unavailable and taskId = "''task-1''" and w = world0
             and rejection = "''sandbox unavailable''"]
  by (simp add: noRepository_def repositoryChanged_def unavailable_def scripted_def
      failed_def ok_def)

text \<open>
  Claim C7 as stated fails: when the execution context rejects the call the handler
  returns no diff text, neither the empty string nor any other, and the request is
  answered with an error status.
\<close>

theorem diff_never_errors_counterexample:
  "fst (diffHandler unavailable ''task-1'' world0) = Uncaught ''sandbox unavailable''
   \<and> fst (diffHandler unavailable ''task-1'' world0) \<noteq> JsonData (DiffData [] ''task-1'') 200
   \<and> httpStatus (fst (diffHandler unavailable ''task-1'' world0)) = 500"
  by (simp add: diffHandler_def run_exec_eq unavailable_def)

text \<open>
  Claim C9. For every task id the events handler makes one call, which opens the output
  stream of the \<^verbatim>\<open>curl\<close> to the agent's event feed, and answers with that stream itself as
  the body of the response: the handler takes no session id and does not read the stream,
  whose type is arbitrary here. The unwrapping, the normalisation and the session filter
  are the subscriber's (\<open>toTaskEvent\<close>, \<open>shouldDeliver\<close>). (When the execution context
  rejects the call there is no stream, and the error leaves the handler.)
\<close>

theorem events_passthrough:
  "eventsHandler p taskId w =
     ((case fst (execStream p taskId eventsCommand (ctx w)) of
         Inr stream \<Rightarrow>
           StreamResponse stream
             [(''Content-Type'', ''text/event-stream''), (''Cache-Control'', ''no-cache''),
              (''Connection'', ''keep-alive'')]
       | Inl rejection \<Rightarrow> Uncaught rejection),
      \<lparr> ctx = snd (execStream p taskId eventsCommand (ctx w)),
        trace = trace w @ [ExecStream taskId eventsCommand] \<rparr>)"
  by (simp add: eventsHandler_def run_execStream_eq split: sum.splits)

text \<open>The handler run on a scripted context, whose stream is the text \<^verbatim>\<open>data: {}\<close>.\<close>

theorem events_passthrough_witness:
  "fst (execStream agentDown ''task-1'' eventsCommand (ctx world0)) = Inr ''data: {}''
   \<and> eventsHandler agentDown ''task-1'' world0 =
     (StreamResponse ''data: {}''
        [(''Content-Type'', ''text/event-stream''), (''Cache-Control'', ''no-cache''),
         (''Connection'', ''keep-alive'')],
      \<lparr> ctx = 0, trace = [ExecStream ''task-1'' eventsCommand] \<rparr>)"
  using events_passthrough [where p = agentDown and taskId = "''task-1''" and w = world0]
  by (simp add: agentDown_def scripted_def world0_def)

end
